theory Spec2Isabelle
  imports Main
begin

section \<open>JavaScript values\<close>

text \<open>
  The handlers of \<^verbatim>\<open>functions/index.js\<close> move JavaScript values between the request, the
  document store and the response. A value is one of the JSON shapes, a Firestore
  \<^verbatim>\<open>Timestamp\<close> (its time in milliseconds), or the \<^verbatim>\<open>FieldValue.serverTimestamp()\<close>
  sentinel. Numbers are restricted to integers: the handlers only test them for truthiness
  and pass them on. An object is a list of its properties in insertion order.
\<close>

datatype jsval =
    Undefined
  | Null
  | Bool bool
  | Num int
  | Str string
  | Arr "jsval list"
  | Obj "(string \<times> jsval) list"
  | Tstamp int
  | ServerTimestamp

type_synonym obj = "(string \<times> jsval) list"

text \<open>JavaScript's \<^verbatim>\<open>ToBoolean\<close>: what \<^verbatim>\<open>!v\<close> and \<^verbatim>\<open>if (v)\<close> test.\<close>

fun truthy :: "jsval \<Rightarrow> bool" where
  "truthy Undefined = False"
| "truthy Null = False"
| "truthy (Bool b) = b"
| "truthy (Num n) = (n \<noteq> 0)"
| "truthy (Str s) = (s \<noteq> [])"
| "truthy (Arr xs) = True"
| "truthy (Obj ps) = True"
| "truthy (Tstamp t) = True"
| "truthy ServerTimestamp = True"

text \<open>Reading a property, as the destructuring \<^verbatim>\<open>const {k} = o\<close> does: an absent key reads
  as \<^verbatim>\<open>undefined\<close>.\<close>

definition get_prop :: "obj \<Rightarrow> string \<Rightarrow> jsval" where
  "get_prop ps k = (case map_of ps k of None \<Rightarrow> Undefined | Some v \<Rightarrow> v)"

text \<open>Writing a property: an existing key keeps its place and takes the new value, a new key
  goes last.\<close>

fun set_prop :: "obj \<Rightarrow> string \<Rightarrow> jsval \<Rightarrow> obj" where
  "set_prop [] k v = [(k, v)]"
| "set_prop ((k', v') # ps) k v = (if k' = k then (k, v) # ps else (k', v') # set_prop ps k v)"

text \<open>The object spread \<^verbatim>\<open>{...target, ...source}\<close>.\<close>

definition spread :: "obj \<Rightarrow> obj \<Rightarrow> obj" where
  "spread target source = foldl (\<lambda>acc (k, v). set_prop acc k v) target source"

section \<open>Requests, responses and the calls made to the store\<close>

text \<open>
  \<^verbatim>\<open>req.method\<close>, \<^verbatim>\<open>req.query\<close> and \<^verbatim>\<open>req.body\<close>. The hosting runtime's parsers always hand
  the handler an object for the query and for the body, so both are objects here.
\<close>

record request =
  "method" :: string
  query :: obj
  body :: obj

text \<open>\<^verbatim>\<open>res.status(n).json(v)\<close> and \<^verbatim>\<open>res.status(n).send(v)\<close>: the status and the value sent.\<close>

record response =
  status :: int
  json :: jsval

datatype error = Error string

text \<open>The calls a handler makes on the \<^verbatim>\<open>events\<close> collection, in the order it makes them.\<close>

datatype store_call =
    Add obj
  | GetAll
  | Doc jsval
  | Get string
  | Update string obj
  | Delete string
  | WhereGet "(string \<times> jsval) list"

section \<open>What the handlers call and the repository does not define\<close>

text \<open>
  The Admin SDK and the JavaScript \<^verbatim>\<open>Date\<close> are taken as parameters. A call either throws
  (\<open>Inl\<close>) or returns (\<open>Inr\<close>); a call that writes also returns the store after it.
  \<^item> \<open>getTime v\<close>: the time value of \<^verbatim>\<open>new Date(v)\<close>, \<open>None\<close> for an invalid date (NaN);
  \<^item> \<open>fromDate\<close>: \<^verbatim>\<open>Timestamp.fromDate\<close>, given that time value;
  \<^item> \<open>coll_add\<close>, \<open>coll_get\<close>: \<^verbatim>\<open>collection("events").add(data)\<close> and \<^verbatim>\<open>.get()\<close>;
  \<^item> \<open>coll_doc\<close>: \<^verbatim>\<open>collection("events").doc(id)\<close>, which checks the id and returns the
    document's path;
  \<^item> \<open>doc_get\<close>, \<open>doc_update\<close>, \<open>doc_delete\<close>: \<^verbatim>\<open>.get()\<close>, \<^verbatim>\<open>.update(data)\<close> and \<^verbatim>\<open>.delete()\<close>
    on that document; \<open>doc_get\<close> returns \<open>None\<close> for a snapshot whose \<^verbatim>\<open>exists\<close> is false;
  \<^item> \<open>query_get\<close>: \<^verbatim>\<open>.where(k, "==", v)\<close> for each pair of the list, then \<^verbatim>\<open>.get()\<close>.
\<close>

record 's env =
  getTime :: "jsval \<Rightarrow> int option"
  fromDate :: "int option \<Rightarrow> error + jsval"
  coll_add :: "obj \<Rightarrow> 's \<Rightarrow> (error + string) \<times> 's"
  coll_get :: "'s \<Rightarrow> error + (string \<times> obj) list"
  coll_doc :: "jsval \<Rightarrow> error + string"
  doc_get :: "string \<Rightarrow> 's \<Rightarrow> error + obj option"
  doc_update :: "string \<Rightarrow> obj \<Rightarrow> 's \<Rightarrow> (error + unit) \<times> 's"
  doc_delete :: "string \<Rightarrow> 's \<Rightarrow> (error + unit) \<times> 's"
  query_get :: "(string \<times> jsval) list \<Rightarrow> 's \<Rightarrow> error + (string \<times> obj) list"

text \<open>\<^verbatim>\<open>new Date(v)\<close>: ECMAScript makes \<^verbatim>\<open>new Date(undefined)\<close> an invalid date.\<close>

definition new_Date :: "'s env \<Rightarrow> jsval \<Rightarrow> int option" where
  "new_Date env v = (if v = Undefined then None else getTime env v)"

text \<open>The mapping \<^verbatim>\<open>(doc) => ({id: doc.id, ...doc.data()})\<close>.\<close>

definition with_id :: "string \<times> obj \<Rightarrow> jsval" where
  "with_id d = Obj (spread [(''id'', Str (fst d))] (snd d))"

section \<open>The handlers\<close>

text \<open>
  A handler takes the environment, the reading of \<^verbatim>\<open>Timestamp.now().toMillis()\<close> taken at its
  first line, the request and the store. It returns the response it sends, the calls it made
  to the store, and the store afterwards. The \<^verbatim>\<open>catch\<close> block of each handler is the value
  \<open>caught\<close>; the logger is not modelled.
\<close>

definition createEvent ::
  "'s env \<Rightarrow> int \<Rightarrow> request \<Rightarrow> 's \<Rightarrow> response \<times> store_call list \<times> 's" where
  "createEvent env timeNow req s =
    (let caught = \<lparr>status = 500, json = Obj
           [(''status'', Str ''failure''),
            (''message'', Str ''Error creating event''),
            (''error'', Obj [(''code'', Num 500), (''details'', Str ''Unable to create new event'')]),
            (''timestamp'', Num timeNow)]\<rparr>
     in
     if method req \<noteq> ''POST'' then
       (\<lparr>status = 405, json = Obj
           [(''status'', Str ''failure''),
            (''message'', Str ''Method Not Allowed''),
            (''error'', Obj [(''code'', Num 405), (''details'', Str ''Only POST requests are allowed'')]),
            (''timestamp'', Num timeNow)]\<rparr>, [], s)
     else
       let title = get_prop (body req) ''title'';
           description = get_prop (body req) ''description'';
           date = get_prop (body req) ''date'';
           location = get_prop (body req) ''location'';
           organizer = get_prop (body req) ''organizer'';
           eventType = get_prop (body req) ''eventType''
       in
       if \<not> truthy title \<or> \<not> truthy description \<or> \<not> truthy date \<or>
          \<not> truthy location \<or> \<not> truthy organizer \<or> \<not> truthy eventType then
         (\<lparr>status = 400, json = Obj
             [(''status'', Str ''failure''),
              (''message'', Str ''Missing required fields''),
              (''error'', Obj [(''code'', Num 400), (''details'', Str ''Please provide all required fields'')]),
              (''timestamp'', Num timeNow)]\<rparr>, [], s)
       else
         (case fromDate env (new_Date env date) of
            Inl e \<Rightarrow> (caught, [], s)
          | Inr ts \<Rightarrow>
              let data =
                    [(''title'', title),
                     (''description'', description),
                     (''date'', ts),
                     (''location'', location),
                     (''organizer'', organizer),
                     (''eventType'', eventType),
                     (''updatedAt'', ServerTimestamp)]
              in
              (case coll_add env data s of
                 (Inl e, s') \<Rightarrow> (caught, [Add data], s')
               | (Inr new_id, s') \<Rightarrow>
                   (\<lparr>status = 201, json = Obj
                       [(''status'', Str ''success''),
                        (''data'', Obj
                           [(''id'', Str new_id),
                            (''title'', title),
                            (''description'', description),
                            (''date'', date),
                            (''location'', location),
                            (''organizer'', organizer),
                            (''eventType'', eventType)]),
                        (''timestamp'', Num timeNow)]\<rparr>, [Add data], s'))))"

definition getAllEvents ::
  "'s env \<Rightarrow> int \<Rightarrow> request \<Rightarrow> 's \<Rightarrow> response \<times> store_call list \<times> 's" where
  "getAllEvents env timeNow req s =
    (let caught = \<lparr>status = 500, json = Obj
           [(''status'', Str ''failure''),
            (''message'', Str ''Error fetching all event''),
            (''error'', Obj [(''code'', Num 500), (''details'', Str ''Unable to get all events'')]),
            (''timestamp'', Num timeNow)]\<rparr>
     in
     case coll_get env s of
       Inl e \<Rightarrow> (caught, [GetAll], s)
     | Inr snapshot \<Rightarrow>
         let events = map with_id snapshot in
         if method req \<noteq> ''GET'' then
           (\<lparr>status = 405, json = Obj
               [(''status'', Str ''failure''),
                (''message'', Str ''Method Not Allowed''),
                (''error'', Obj [(''code'', Num 405), (''details'', Str ''Only GET requests are allowed'')]),
                (''timestamp'', Num timeNow)]\<rparr>, [GetAll], s)
         else
           (\<lparr>status = 201, json = Obj
               [(''status'', Str ''success''),
                (''data'', Obj [(''events'', Arr events)]),
                (''timestamp'', Num timeNow)]\<rparr>, [GetAll], s))"

definition getEventById ::
  "'s env \<Rightarrow> int \<Rightarrow> request \<Rightarrow> 's \<Rightarrow> response \<times> store_call list \<times> 's" where
  "getEventById env timeNow req s =
    (let caught = \<lparr>status = 500, json = Obj
           [(''status'', Str ''failure''),
            (''message'', Str ''Error fetching event''),
            (''error'', Obj [(''code'', Num 500), (''details'', Str ''Unable to get event'')]),
            (''timestamp'', Num timeNow)]\<rparr>
     in
     if method req \<noteq> ''GET'' then
       (\<lparr>status = 405, json = Obj
           [(''status'', Str ''failure''),
            (''message'', Str ''Method Not Allowed''),
            (''error'', Obj [(''code'', Num 405), (''details'', Str ''Only GET requests are allowed'')]),
            (''timestamp'', Num timeNow)]\<rparr>, [], s)
     else
       let id = get_prop (query req) ''id'' in
       (case coll_doc env id of
          Inl e \<Rightarrow> (caught, [Doc id], s)
        | Inr path \<Rightarrow>
            (case doc_get env path s of
               Inl e \<Rightarrow> (caught, [Doc id, Get path], s)
             | Inr eventDoc \<Rightarrow>
                 (\<lparr>status = 200, json = Obj
                     [(''status'', Str ''success''),
                      (''data'', (case eventDoc of
                                    None \<Rightarrow> Obj []
                                  | Some stored \<Rightarrow> with_id (path, stored))),
                      (''timestamp'', Num timeNow)]\<rparr>, [Doc id, Get path], s))))"

definition updateEvent ::
  "'s env \<Rightarrow> int \<Rightarrow> request \<Rightarrow> 's \<Rightarrow> response \<times> store_call list \<times> 's" where
  "updateEvent env timeNow req s =
    (let caught = \<lparr>status = 500, json = Obj
           [(''status'', Str ''failure''),
            (''message'', Str ''Error updating event''),
            (''error'', Obj [(''code'', Num 500), (''details'', Str ''Unable to update event'')]),
            (''timestamp'', Num timeNow)]\<rparr>;
         id = get_prop (query req) ''id'';
         title = get_prop (body req) ''title'';
         description = get_prop (body req) ''description'';
         date = get_prop (body req) ''date'';
         location = get_prop (body req) ''location'';
         organizer = get_prop (body req) ''organizer'';
         eventType = get_prop (body req) ''eventType''
     in
     case coll_doc env id of
       Inl e \<Rightarrow> (caught, [Doc id], s)
     | Inr path \<Rightarrow>
         (case fromDate env (new_Date env date) of
            Inl e \<Rightarrow> (caught, [Doc id], s)
          | Inr ts \<Rightarrow>
              let data =
                    [(''title'', title),
                     (''description'', description),
                     (''date'', ts),
                     (''location'', location),
                     (''organizer'', organizer),
                     (''eventType'', eventType),
                     (''updatedAt'', ServerTimestamp)]
              in
              (case doc_update env path data s of
                 (Inl e, s') \<Rightarrow> (caught, [Doc id, Update path data], s')
               | (Inr u, s') \<Rightarrow>
                   (\<lparr>status = 200, json = Obj [(''message'', Str ''Event updated'')]\<rparr>,
                    [Doc id, Update path data], s'))))"

definition deleteEvent ::
  "'s env \<Rightarrow> int \<Rightarrow> request \<Rightarrow> 's \<Rightarrow> response \<times> store_call list \<times> 's" where
  "deleteEvent env timeNow req s =
    (let caught = \<lparr>status = 500, json = Obj
           [(''status'', Str ''failure''),
            (''message'', Str ''Error deleting event''),
            (''error'', Obj [(''code'', Num 500), (''details'', Str ''Unable to delete event'')]),
            (''timestamp'', Num timeNow)]\<rparr>;
         id = get_prop (query req) ''id''
     in
     case coll_doc env id of
       Inl e \<Rightarrow> (caught, [Doc id], s)
     | Inr path \<Rightarrow>
         (case doc_delete env path s of
            (Inl e, s') \<Rightarrow> (caught, [Doc id, Delete path], s')
          | (Inr u, s') \<Rightarrow>
              (\<lparr>status = 200, json = Obj
                  [(''status'', Str ''success''),
                   (''data'', Obj [(''message'', Str ''Event deleted'')]),
                   (''timestamp'', Num timeNow)]\<rparr>, [Doc id, Delete path], s')))"

definition filterEvents ::
  "'s env \<Rightarrow> int \<Rightarrow> request \<Rightarrow> 's \<Rightarrow> response \<times> store_call list \<times> 's" where
  "filterEvents env timeNow req s =
    (let caught = \<lparr>status = 500, json = Obj
           [(''status'', Str ''failure''),
            (''message'', Str ''Error filtering event''),
            (''error'', Obj [(''code'', Num 500), (''details'', Str ''Unable to filter event'')]),
            (''timestamp'', Num timeNow)]\<rparr>;
         eventType = get_prop (query req) ''eventType'';
         date = get_prop (query req) ''date''
     in
     if \<not> truthy eventType \<and> \<not> truthy date then
       (\<lparr>status = 400, json = Obj
           [(''status'', Str ''failure''),
            (''message'', Str ''Missing required fields''),
            (''error'', Obj [(''code'', Num 400), (''details'', Str ''Please provide at least one filter'')]),
            (''timestamp'', Num timeNow)]\<rparr>, [], s)
     else
       (case fromDate env (new_Date env date) of
          Inl e \<Rightarrow> (caught, [], s)
        | Inr dateFilter \<Rightarrow>
            let filters =
                  (if truthy eventType then [(''eventType'', eventType)] else []) @
                  (if truthy date then [(''date'', dateFilter)] else [])
            in
            (case query_get env filters s of
               Inl e \<Rightarrow> (caught, [WhereGet filters], s)
             | Inr snapshot \<Rightarrow>
                 (\<lparr>status = 200, json = Arr (map with_id snapshot)\<rparr>, [WhereGet filters], s))))"

section \<open>Shapes of the responses\<close>

fun is_Str :: "jsval \<Rightarrow> bool" where
  "is_Str (Str s) = True"
| "is_Str v = False"

fun is_Num :: "jsval \<Rightarrow> bool" where
  "is_Num (Num n) = True"
| "is_Num v = False"

text \<open>The failure envelope \<^verbatim>\<open>{status: "failure", message, error: {code, details}, timestamp}\<close>
  with the given timestamp: exactly these keys, a string message, a numeric code and a string
  for the details.\<close>

definition failure_envelope :: "int \<Rightarrow> jsval \<Rightarrow> bool" where
  "failure_envelope t v =
    (case v of
       Obj ps \<Rightarrow>
         map fst ps = [''status'', ''message'', ''error'', ''timestamp''] \<and>
         get_prop ps ''status'' = Str ''failure'' \<and>
         is_Str (get_prop ps ''message'') \<and>
         (case get_prop ps ''error'' of
            Obj e \<Rightarrow>
              map fst e = [''code'', ''details''] \<and>
              is_Num (get_prop e ''code'') \<and> is_Str (get_prop e ''details'')
          | _ \<Rightarrow> False) \<and>
         get_prop ps ''timestamp'' = Num t
     | _ \<Rightarrow> False)"

section \<open>A reference document store\<close>

text \<open>
  Modelled from the spec: the managed document store, which is an external collaborator and
  not part of the repository. It holds the documents of the \<^verbatim>\<open>events\<close> collection by id, a
  counter from which the next id is made, and its own clock. This store never fails for
  lack of service; a store that does is any other value of the environment.
\<close>

record store =
  docs :: "(string \<times> obj) list"
  seed :: nat
  clock :: int

definition digit :: "nat \<Rightarrow> char" where
  "digit n = ''0123456789'' ! n"

fun decimal :: "nat \<Rightarrow> string" where
  "decimal n = (if n < 10 then [digit n] else decimal (n div 10) @ [digit (n mod 10)])"

declare decimal.simps [simp del]

text \<open>Modelled from the spec: the store assigns the id of a new document; here the id is made
  from the counter.\<close>

definition autoId :: "nat \<Rightarrow> string" where
  "autoId n = ''event'' @ decimal n"

text \<open>Modelled from the spec: a server-assigned \<^verbatim>\<open>updatedAt\<close> takes the store's clock at the
  write.\<close>

definition resolve :: "int \<Rightarrow> obj \<Rightarrow> obj" where
  "resolve now data = map (\<lambda>(k, v). (k, if v = ServerTimestamp then Tstamp now else v)) data"

text \<open>Modelled from the spec: \<^verbatim>\<open>add\<close> inserts a new document under a store-assigned id that no
  document has; it fails when the id it made is taken.\<close>

definition store_add :: "obj \<Rightarrow> store \<Rightarrow> (error + string) \<times> store" where
  "store_add data s =
    (let new_id = autoId (seed s) in
     if new_id \<in> set (map fst (docs s)) then
       (Inl (Error ''ALREADY_EXISTS''), s\<lparr>seed := Suc (seed s)\<rparr>)
     else
       (Inr new_id, s\<lparr>docs := docs s @ [(new_id, resolve (clock s) data)], seed := Suc (seed s)\<rparr>))"

text \<open>Modelled from the spec: reading the collection returns every document.\<close>

definition store_get_all :: "store \<Rightarrow> error + (string \<times> obj) list" where
  "store_get_all s = Inr (docs s)"

text \<open>Modelled from the spec: a document is addressed by its id, a non-empty string; the model
  takes no id with a slash, which would address another collection.\<close>

definition store_doc :: "jsval \<Rightarrow> error + string" where
  "store_doc v =
    (case v of
       Str p \<Rightarrow> if p = [] \<or> CHR ''/'' \<in> set p then Inl (Error ''not a valid resource path'') else Inr p
     | _ \<Rightarrow> Inl (Error ''not a valid resource path''))"

text \<open>Modelled from the spec: fetching a single document by id finds it or reports that it does
  not exist.\<close>

definition store_doc_get :: "string \<Rightarrow> store \<Rightarrow> error + obj option" where
  "store_doc_get p s = Inr (map_of (docs s) p)"

text \<open>Modelled from the spec: an update overwrites the fields it names on the document; the
  spec leaves open what the store does for an id that does not exist, and this store fails.\<close>

definition store_update :: "string \<Rightarrow> obj \<Rightarrow> store \<Rightarrow> (error + unit) \<times> store" where
  "store_update p data s =
    (case map_of (docs s) p of
       None \<Rightarrow> (Inl (Error ''NOT_FOUND''), s)
     | Some old \<Rightarrow>
         (Inr (),
          s\<lparr>docs := map (\<lambda>(i, d). if i = p then (i, spread d (resolve (clock s) data)) else (i, d))
                       (docs s)\<rparr>))"

text \<open>Modelled from the spec: a delete is physical, and deleting an id that does not exist
  succeeds.\<close>

definition store_delete :: "string \<Rightarrow> store \<Rightarrow> (error + unit) \<times> store" where
  "store_delete p s = (Inr (), s\<lparr>docs := filter (\<lambda>(i, d). i \<noteq> p) (docs s)\<rparr>)"

text \<open>Modelled from the spec: an equality-filtered query returns the documents whose fields
  equal every given value.\<close>

definition store_query :: "(string \<times> jsval) list \<Rightarrow> store \<Rightarrow> error + (string \<times> obj) list" where
  "store_query filters s =
    Inr (filter (\<lambda>(i, d). list_all (\<lambda>(k, v). get_prop d k = v) filters) (docs s))"

text \<open>
  \<^verbatim>\<open>Timestamp.fromDate(d)\<close> of the Admin SDK is \<^verbatim>\<open>new Timestamp(seconds, nanoseconds)\<close> for the
  time value of \<^verbatim>\<open>d\<close>, and the constructor takes for its seconds only an integer within
  the years 1 to 9999: for an invalid date, whose time value is NaN, it throws.
\<close>

definition Timestamp_fromDate :: "int option \<Rightarrow> error + jsval" where
  "Timestamp_fromDate ms =
    (case ms of
       None \<Rightarrow> Inl (Error ''Value for argument seconds is not a valid integer.'')
     | Some t \<Rightarrow>
         if t div 1000 < - 62135596800 \<or> 253402300799 < t div 1000 then
           Inl (Error ''Value for argument seconds must be within range'')
         else Inr (Tstamp t))"

text \<open>The environment of the reference store, for a given reading of \<^verbatim>\<open>new Date(v).getTime()\<close>.\<close>

definition firestore :: "(jsval \<Rightarrow> int option) \<Rightarrow> store env" where
  "firestore date_value =
    \<lparr>getTime = date_value,
     fromDate = Timestamp_fromDate,
     coll_add = store_add,
     coll_get = store_get_all,
     coll_doc = store_doc,
     doc_get = store_doc_get,
     doc_update = store_update,
     doc_delete = store_delete,
     query_get = store_query\<rparr>"

subsection \<open>Sample values\<close>

text \<open>\<^verbatim>\<open>new Date("2024-05-01").getTime()\<close> is 1714521600000; the other values used below are
  not dates.\<close>

definition sample_dates :: "jsval \<Rightarrow> int option" where
  "sample_dates v = (if v = Str ''2024-05-01'' then Some 1714521600000 else None)"

definition empty_store :: store where
  "empty_store = \<lparr>docs = [], seed = 0, clock = 1700000000000\<rparr>"

definition meetup :: obj where
  "meetup =
    [(''title'', Str ''Meetup''),
     (''description'', Str ''d''),
     (''date'', Str ''2024-05-01''),
     (''location'', Str ''Hall A''),
     (''organizer'', Str ''Org''),
     (''eventType'', Str ''social'')]"

text \<open>The store after the meetup has been created in the empty store.\<close>

definition meetup_store :: store where
  "meetup_store =
    \<lparr>docs = [(''event0'',
        [(''title'', Str ''Meetup''),
         (''description'', Str ''d''),
         (''date'', Tstamp 1714521600000),
         (''location'', Str ''Hall A''),
         (''organizer'', Str ''Org''),
         (''eventType'', Str ''social''),
         (''updatedAt'', Tstamp 1700000000000)])],
     seed = 1, clock = 1700000000000\<rparr>"

section \<open>Properties of the create handler\<close>

lemma autoId_0: "autoId 0 = ''event0''"
  by (simp add: autoId_def decimal.simps digit_def)

lemma create_meetup:
  "createEvent (firestore sample_dates) 1700000000500 \<lparr>method = ''POST'', query = [], body = meetup\<rparr>
     empty_store =
   (\<lparr>status = 201, json = Obj
       [(''status'', Str ''success''),
        (''data'', Obj ((''id'', Str ''event0'') # meetup)),
        (''timestamp'', Num 1700000000500)]\<rparr>,
    [Add [(''title'', Str ''Meetup''),
          (''description'', Str ''d''),
          (''date'', Tstamp 1714521600000),
          (''location'', Str ''Hall A''),
          (''organizer'', Str ''Org''),
          (''eventType'', Str ''social''),
          (''updatedAt'', ServerTimestamp)]],
    meetup_store)"
  by (simp add: createEvent_def firestore_def meetup_def get_prop_def new_Date_def sample_dates_def
      Timestamp_fromDate_def store_add_def empty_store_def autoId_0 resolve_def meetup_store_def
      Let_def)

text \<open>
  C3: a POST request to \<open>createEvent\<close> in which one of the six required body fields is absent
  or falsy is answered with status 400, and the handler makes no call to the store: no
  document is created and the store is as it was.
\<close>

theorem createEvent_missing_field:
  assumes "method req = ''POST''"
    and "k \<in> {''title'', ''description'', ''date'', ''location'', ''organizer'', ''eventType''}"
    and "\<not> truthy (get_prop (body req) k)"
  shows "status (fst (createEvent env timeNow req s)) = 400
    \<and> snd (createEvent env timeNow req s) = ([], s)"
  using assms by (auto simp add: createEvent_def Let_def)

theorem createEvent_missing_field_witness:
  "status (fst (createEvent (firestore sample_dates) 1700000000500
      \<lparr>method = ''POST'', query = [], body = [(''title'', Str ''Meetup''), (''date'', Str [])]\<rparr>
      empty_store)) = 400
   \<and> snd (createEvent (firestore sample_dates) 1700000000500
      \<lparr>method = ''POST'', query = [], body = [(''title'', Str ''Meetup''), (''date'', Str [])]\<rparr>
      empty_store) = ([], empty_store)"
  using createEvent_missing_field [of
      "\<lparr>method = ''POST'', query = [], body = [(''title'', Str ''Meetup''), (''date'', Str [])]\<rparr>"
      "''date''" "firestore sample_dates" 1700000000500 empty_store]
  by (simp add: get_prop_def)

text \<open>
  C8: a request to \<open>createEvent\<close> whose method is not POST is answered with status 405 and
  the failure envelope, and the handler makes no call to the store, which is as it was.
\<close>

theorem createEvent_method_not_allowed:
  assumes "method req \<noteq> ''POST''"
  shows "createEvent env timeNow req s =
    (\<lparr>status = 405, json = Obj
        [(''status'', Str ''failure''),
         (''message'', Str ''Method Not Allowed''),
         (''error'', Obj [(''code'', Num 405), (''details'', Str ''Only POST requests are allowed'')]),
         (''timestamp'', Num timeNow)]\<rparr>, [], s)
    \<and> failure_envelope timeNow (json (fst (createEvent env timeNow req s)))"
  using assms by (simp add: createEvent_def failure_envelope_def get_prop_def)

theorem createEvent_method_not_allowed_witness:
  "createEvent (firestore sample_dates) 1700000000500 \<lparr>method = ''GET'', query = [], body = meetup\<rparr>
     empty_store =
    (\<lparr>status = 405, json = Obj
        [(''status'', Str ''failure''),
         (''message'', Str ''Method Not Allowed''),
         (''error'', Obj [(''code'', Num 405), (''details'', Str ''Only POST requests are allowed'')]),
         (''timestamp'', Num 1700000000500)]\<rparr>, [], empty_store)"
  using createEvent_method_not_allowed [of "\<lparr>method = ''GET'', query = [], body = meetup\<rparr>"
      "firestore sample_dates" 1700000000500 empty_store]
  by simp

text \<open>
  C7: a POST request to \<open>createEvent\<close> with its six fields truthy, for which the conversion
  of the date and the insert return, is answered with status 201, the id the store assigned
  and the six submitted values. The date sent back is the value of the request body; the
  document handed to the store carries the converted timestamp instead.
\<close>

theorem createEvent_created:
  assumes "method req = ''POST''"
    and "truthy (get_prop (body req) ''title'')"
    and "truthy (get_prop (body req) ''description'')"
    and "truthy (get_prop (body req) ''date'')"
    and "truthy (get_prop (body req) ''location'')"
    and "truthy (get_prop (body req) ''organizer'')"
    and "truthy (get_prop (body req) ''eventType'')"
    and "fromDate env (new_Date env (get_prop (body req) ''date'')) = Inr ts"
    and "coll_add env
           [(''title'', get_prop (body req) ''title''),
            (''description'', get_prop (body req) ''description''),
            (''date'', ts),
            (''location'', get_prop (body req) ''location''),
            (''organizer'', get_prop (body req) ''organizer''),
            (''eventType'', get_prop (body req) ''eventType''),
            (''updatedAt'', ServerTimestamp)] s = (Inr new_id, s')"
  shows "createEvent env timeNow req s =
    (\<lparr>status = 201, json = Obj
        [(''status'', Str ''success''),
         (''data'', Obj
            [(''id'', Str new_id),
             (''title'', get_prop (body req) ''title''),
             (''description'', get_prop (body req) ''description''),
             (''date'', get_prop (body req) ''date''),
             (''location'', get_prop (body req) ''location''),
             (''organizer'', get_prop (body req) ''organizer''),
             (''eventType'', get_prop (body req) ''eventType'')]),
         (''timestamp'', Num timeNow)]\<rparr>,
     [Add [(''title'', get_prop (body req) ''title''),
           (''description'', get_prop (body req) ''description''),
           (''date'', ts),
           (''location'', get_prop (body req) ''location''),
           (''organizer'', get_prop (body req) ''organizer''),
           (''eventType'', get_prop (body req) ''eventType''),
           (''updatedAt'', ServerTimestamp)]],
     s')"
  using assms by (simp add: createEvent_def Let_def)

theorem createEvent_created_witness:
  "fst (createEvent (firestore sample_dates) 1700000000500
      \<lparr>method = ''POST'', query = [], body = meetup\<rparr> empty_store) =
    \<lparr>status = 201, json = Obj
        [(''status'', Str ''success''),
         (''data'', Obj
            [(''id'', Str ''event0''),
             (''title'', Str ''Meetup''),
             (''description'', Str ''d''),
             (''date'', Str ''2024-05-01''),
             (''location'', Str ''Hall A''),
             (''organizer'', Str ''Org''),
             (''eventType'', Str ''social'')]),
         (''timestamp'', Num 1700000000500)]\<rparr>
   \<and> snd (snd (createEvent (firestore sample_dates) 1700000000500
      \<lparr>method = ''POST'', query = [], body = meetup\<rparr> empty_store)) = meetup_store"
  using createEvent_created [of "\<lparr>method = ''POST'', query = [], body = meetup\<rparr>"
      "firestore sample_dates" "Tstamp 1714521600000" empty_store "''event0''" meetup_store
      1700000000500]
  by (simp add: firestore_def meetup_def get_prop_def new_Date_def sample_dates_def
      Timestamp_fromDate_def store_add_def empty_store_def autoId_0 resolve_def meetup_store_def
      Let_def)

section \<open>Properties of the update handler\<close>

text \<open>
  C2, as the code has it: an \<open>updateEvent\<close> request for which the document reference, the
  conversion of the body's date and the update itself all return is answered with status 200
  and the body \<^verbatim>\<open>{message: "Event updated"}\<close>, and the store is the one the update left.
  Nothing is asked of the store beforehand, so this does not depend on a document having the
  id. When the document reference returns and the conversion of the date throws, the request
  is answered with status 500 and the failure envelope of the handler; the update is not
  called and the store is as it was.
\<close>

theorem updateEvent_updated:
  "(coll_doc env (get_prop (query req) ''id'') = Inr path \<and>
    fromDate env (new_Date env (get_prop (body req) ''date'')) = Inr ts \<and>
    doc_update env path
      [(''title'', get_prop (body req) ''title''),
       (''description'', get_prop (body req) ''description''),
       (''date'', ts),
       (''location'', get_prop (body req) ''location''),
       (''organizer'', get_prop (body req) ''organizer''),
       (''eventType'', get_prop (body req) ''eventType''),
       (''updatedAt'', ServerTimestamp)] s = (Inr u, s') \<longrightarrow>
    updateEvent env timeNow req s =
      (\<lparr>status = 200, json = Obj [(''message'', Str ''Event updated'')]\<rparr>,
       [Doc (get_prop (query req) ''id''),
        Update path
          [(''title'', get_prop (body req) ''title''),
           (''description'', get_prop (body req) ''description''),
           (''date'', ts),
           (''location'', get_prop (body req) ''location''),
           (''organizer'', get_prop (body req) ''organizer''),
           (''eventType'', get_prop (body req) ''eventType''),
           (''updatedAt'', ServerTimestamp)]],
       s'))
   \<and> (coll_doc env (get_prop (query req) ''id'') = Inr path \<and>
      fromDate env (new_Date env (get_prop (body req) ''date'')) = Inl e \<longrightarrow>
      updateEvent env timeNow req s =
        (\<lparr>status = 500, json = Obj
            [(''status'', Str ''failure''),
             (''message'', Str ''Error updating event''),
             (''error'', Obj [(''code'', Num 500), (''details'', Str ''Unable to update event'')]),
             (''timestamp'', Num timeNow)]\<rparr>,
         [Doc (get_prop (query req) ''id'')], s))"
  by (simp add: updateEvent_def Let_def)

theorem updateEvent_updated_witness:
  "fst (updateEvent (firestore sample_dates) 1700000000500
      \<lparr>method = ''PUT'', query = [(''id'', Str ''event0'')], body = meetup\<rparr> meetup_store) =
      \<lparr>status = 200, json = Obj [(''message'', Str ''Event updated'')]\<rparr>
   \<and> updateEvent (firestore sample_dates) 1700000000500
      \<lparr>method = ''PUT'', query = [(''id'', Str ''event0'')], body = [(''title'', Str ''Party'')]\<rparr>
      meetup_store =
      (\<lparr>status = 500, json = Obj
          [(''status'', Str ''failure''),
           (''message'', Str ''Error updating event''),
           (''error'', Obj [(''code'', Num 500), (''details'', Str ''Unable to update event'')]),
           (''timestamp'', Num 1700000000500)]\<rparr>,
       [Doc (Str ''event0'')], meetup_store)"
  using updateEvent_updated [of "firestore sample_dates"
      "\<lparr>method = ''PUT'', query = [(''id'', Str ''event0'')], body = meetup\<rparr>" "''event0''"
      "Tstamp 1714521600000" meetup_store "()"
      "snd (store_update ''event0''
         [(''title'', Str ''Meetup''),
          (''description'', Str ''d''),
          (''date'', Tstamp 1714521600000),
          (''location'', Str ''Hall A''),
          (''organizer'', Str ''Org''),
          (''eventType'', Str ''social''),
          (''updatedAt'', ServerTimestamp)] meetup_store)"
      1700000000500]
    updateEvent_updated [of "firestore sample_dates"
      "\<lparr>method = ''PUT'', query = [(''id'', Str ''event0'')], body = [(''title'', Str ''Party'')]\<rparr>"
      "''event0''" _ meetup_store _ _ 1700000000500
      "Error ''Value for argument seconds is not a valid integer.''"]
  by (simp add: firestore_def meetup_def get_prop_def new_Date_def sample_dates_def
      Timestamp_fromDate_def store_doc_def store_update_def meetup_store_def)

text \<open>
  C2 as it was stated fails where the conversion of the date throws: with the Admin SDK's
  \<^verbatim>\<open>Timestamp.fromDate\<close>, a PUT for the id of a stored event whose body has a title and no
  date is answered with status 500. The document reference is the only call made, so no
  call to the store has thrown; the update itself, had it been made, would have returned.
\<close>

theorem updateEvent_no_date_500:
  "get_prop [(''title'', Str ''Party'')] ''date'' = Undefined
   \<and> fst (snd (updateEvent (firestore sample_dates) 1700000000500
        \<lparr>method = ''PUT'', query = [(''id'', Str ''event0'')], body = [(''title'', Str ''Party'')]\<rparr>
        meetup_store)) = [Doc (Str ''event0'')]
   \<and> store_doc (Str ''event0'') = Inr ''event0''
   \<and> fst (store_update ''event0'' [(''title'', Str ''Party'')] meetup_store) = Inr ()
   \<and> status (fst (updateEvent (firestore sample_dates) 1700000000500
        \<lparr>method = ''PUT'', query = [(''id'', Str ''event0'')], body = [(''title'', Str ''Party'')]\<rparr>
        meetup_store)) = 500
   \<and> json (fst (updateEvent (firestore sample_dates) 1700000000500
        \<lparr>method = ''PUT'', query = [(''id'', Str ''event0'')], body = [(''title'', Str ''Party'')]\<rparr>
        meetup_store)) \<noteq> Obj [(''message'', Str ''Event updated'')]"
  by (simp add: updateEvent_def Let_def firestore_def get_prop_def new_Date_def
      Timestamp_fromDate_def store_doc_def store_update_def meetup_store_def)

section \<open>Properties of the get-by-id handler\<close>

text \<open>On the reference store, a document id that no stored document has is looked up without
  error and reported as not existing.\<close>

lemma store_lookup_absent:
  assumes "i \<noteq> []" and "CHR ''/'' \<notin> set i" and "i \<notin> fst ` set (docs s)"
  shows "coll_doc (firestore date_value) (Str i) = Inr i
    \<and> doc_get (firestore date_value) i s = Inr None"
  using assms by (simp add: firestore_def store_doc_def store_doc_get_def map_of_eq_None_iff)

text \<open>
  C4: a GET request to \<open>getEventById\<close> whose id the store reports as not existing is answered
  with status 200 and the success envelope whose data is the empty object. No request to
  \<open>getEventById\<close> is answered with status 404.
\<close>

theorem getEventById_not_found:
  "(method req = ''GET'' \<and> coll_doc env (get_prop (query req) ''id'') = Inr path \<and>
    doc_get env path s = Inr None \<longrightarrow>
    getEventById env timeNow req s =
      (\<lparr>status = 200, json = Obj
          [(''status'', Str ''success''), (''data'', Obj []), (''timestamp'', Num timeNow)]\<rparr>,
       [Doc (get_prop (query req) ''id''), Get path], s))
   \<and> status (fst (getEventById env timeNow req s)) \<noteq> 404"
  by (simp add: getEventById_def Let_def split: sum.split option.split)

theorem getEventById_not_found_witness:
  "map_of (docs meetup_store) ''ghost'' = None
   \<and> getEventById (firestore sample_dates) 1700000000500
      \<lparr>method = ''GET'', query = [(''id'', Str ''ghost'')], body = []\<rparr> meetup_store =
      (\<lparr>status = 200, json = Obj
          [(''status'', Str ''success''), (''data'', Obj []), (''timestamp'', Num 1700000000500)]\<rparr>,
       [Doc (Str ''ghost''), Get ''ghost''], meetup_store)"
  using getEventById_not_found [of
      "\<lparr>method = ''GET'', query = [(''id'', Str ''ghost'')], body = []\<rparr>"
      "firestore sample_dates" "''ghost''" meetup_store 1700000000500]
  by (simp add: firestore_def get_prop_def store_doc_def store_doc_get_def meetup_store_def)

section \<open>Properties of the delete handler\<close>

lemma filter_other_ids:
  "i \<notin> fst ` set ds \<Longrightarrow> filter (\<lambda>(j, d). j \<noteq> i) ds = ds"
  by (induction ds) auto

text \<open>
  C5: on the reference store, a \<open>deleteEvent\<close> request whose id is a document id that no
  stored document has is answered with status 200 and the success envelope with the message
  "Event deleted", and the store afterwards is the store before.
\<close>

theorem deleteEvent_absent_id:
  assumes "get_prop (query req) ''id'' = Str i"
    and "i \<noteq> []" and "CHR ''/'' \<notin> set i"
    and "i \<notin> fst ` set (docs s)"
  shows "deleteEvent (firestore date_value) timeNow req s =
      (\<lparr>status = 200, json = Obj
          [(''status'', Str ''success''),
           (''data'', Obj [(''message'', Str ''Event deleted'')]),
           (''timestamp'', Num timeNow)]\<rparr>,
       [Doc (Str i), Delete i], s)"
  using assms
  by (simp add: deleteEvent_def firestore_def store_doc_def store_delete_def filter_other_ids)

theorem deleteEvent_absent_id_witness:
  "deleteEvent (firestore sample_dates) 1700000000500
      \<lparr>method = ''DELETE'', query = [(''id'', Str ''ghost'')], body = []\<rparr> meetup_store =
      (\<lparr>status = 200, json = Obj
          [(''status'', Str ''success''),
           (''data'', Obj [(''message'', Str ''Event deleted'')]),
           (''timestamp'', Num 1700000000500)]\<rparr>,
       [Doc (Str ''ghost''), Delete ''ghost''], meetup_store)"
  using deleteEvent_absent_id [of
      "\<lparr>method = ''DELETE'', query = [(''id'', Str ''ghost'')], body = []\<rparr>" "''ghost''"
      meetup_store sample_dates 1700000000500]
  by (simp add: get_prop_def meetup_store_def)

section \<open>Properties of the list handler\<close>

text \<open>
  C6, as the code has it: for every request to \<open>getAllEvents\<close> the one call made to the store
  is the read of the collection, whatever the method, and the store is as it was. The method
  is looked at once the read has returned: a request that is not a GET is then answered with
  status 405 and the failure envelope. When the read throws, the request is answered with
  status 500 and the failure envelope of the handler, whatever its method.
\<close>

theorem getAllEvents_reads_first:
  "snd (getAllEvents env timeNow req s) = ([GetAll], s)
   \<and> (method req \<noteq> ''GET'' \<and> coll_get env s = Inr snapshot \<longrightarrow>
        fst (getAllEvents env timeNow req s) =
          \<lparr>status = 405, json = Obj
            [(''status'', Str ''failure''),
             (''message'', Str ''Method Not Allowed''),
             (''error'', Obj [(''code'', Num 405), (''details'', Str ''Only GET requests are allowed'')]),
             (''timestamp'', Num timeNow)]\<rparr>)
   \<and> (coll_get env s = Inl e \<longrightarrow>
        fst (getAllEvents env timeNow req s) =
          \<lparr>status = 500, json = Obj
            [(''status'', Str ''failure''),
             (''message'', Str ''Error fetching all event''),
             (''error'', Obj [(''code'', Num 500), (''details'', Str ''Unable to get all events'')]),
             (''timestamp'', Num timeNow)]\<rparr>)"
  by (simp add: getAllEvents_def Let_def split: sum.split)

theorem getAllEvents_reads_first_witness:
  "getAllEvents (firestore sample_dates) 1700000000500
      \<lparr>method = ''POST'', query = [], body = []\<rparr> meetup_store =
    (\<lparr>status = 405, json = Obj
        [(''status'', Str ''failure''),
         (''message'', Str ''Method Not Allowed''),
         (''error'', Obj [(''code'', Num 405), (''details'', Str ''Only GET requests are allowed'')]),
         (''timestamp'', Num 1700000000500)]\<rparr>, [GetAll], meetup_store)
   \<and> getAllEvents ((firestore sample_dates)\<lparr>coll_get := \<lambda>s. Inl (Error ''UNAVAILABLE'')\<rparr>)
        1700000000500 \<lparr>method = ''GET'', query = [], body = []\<rparr> meetup_store =
    (\<lparr>status = 500, json = Obj
        [(''status'', Str ''failure''),
         (''message'', Str ''Error fetching all event''),
         (''error'', Obj [(''code'', Num 500), (''details'', Str ''Unable to get all events'')]),
         (''timestamp'', Num 1700000000500)]\<rparr>, [GetAll], meetup_store)"
  using getAllEvents_reads_first [of "firestore sample_dates" 1700000000500
      "\<lparr>method = ''POST'', query = [], body = []\<rparr>" meetup_store "docs meetup_store"]
    getAllEvents_reads_first [of
      "(firestore sample_dates)\<lparr>coll_get := \<lambda>s. Inl (Error ''UNAVAILABLE'')\<rparr>" 1700000000500
      "\<lparr>method = ''GET'', query = [], body = []\<rparr>" meetup_store _ "Error ''UNAVAILABLE''"]
  by (simp add: firestore_def store_get_all_def prod_eq_iff)

text \<open>
  C6 as it was stated fails where the read throws: a POST request to \<open>getAllEvents\<close> on a
  store whose read fails is answered with status 500, not 405.
\<close>

theorem getAllEvents_non_GET_500:
  "method \<lparr>method = ''POST'', query = [], body = []\<rparr> \<noteq> ''GET''
   \<and> status (fst (getAllEvents
        ((firestore sample_dates)\<lparr>coll_get := \<lambda>s. Inl (Error ''UNAVAILABLE'')\<rparr>)
        1700000000500 \<lparr>method = ''POST'', query = [], body = []\<rparr> meetup_store)) = 500
   \<and> status (fst (getAllEvents
        ((firestore sample_dates)\<lparr>coll_get := \<lambda>s. Inl (Error ''UNAVAILABLE'')\<rparr>)
        1700000000500 \<lparr>method = ''POST'', query = [], body = []\<rparr> meetup_store)) \<noteq> 405"
  by (simp add: getAllEvents_def firestore_def)

section \<open>Requests without an id\<close>

text \<open>
  C10, as the code has it: take a request whose query has no \<^verbatim>\<open>id\<close>, and an SDK that throws
  for the undefined document id. A GET request to \<open>getEventById\<close>, and any request to
  \<open>updateEvent\<close> or \<open>deleteEvent\<close>, hands the undefined id to the store's \<^verbatim>\<open>doc\<close>, makes no
  other call, leaves the store as it was and is answered with status 500 and the failure
  envelope of the handler, never with status 400. A request to \<open>getEventById\<close> that is not a
  GET is answered with status 405 before any call to the store.
\<close>

theorem missing_id_rejected:
  assumes "get_prop (query req) ''id'' = Undefined"
    and "coll_doc env Undefined = Inl e"
  shows "(method req = ''GET'' \<longrightarrow>
      getEventById env timeNow req s =
        (\<lparr>status = 500, json = Obj
            [(''status'', Str ''failure''),
             (''message'', Str ''Error fetching event''),
             (''error'', Obj [(''code'', Num 500), (''details'', Str ''Unable to get event'')]),
             (''timestamp'', Num timeNow)]\<rparr>, [Doc Undefined], s))
    \<and> (method req \<noteq> ''GET'' \<longrightarrow>
      status (fst (getEventById env timeNow req s)) = 405
      \<and> snd (getEventById env timeNow req s) = ([], s))
    \<and> updateEvent env timeNow req s =
        (\<lparr>status = 500, json = Obj
            [(''status'', Str ''failure''),
             (''message'', Str ''Error updating event''),
             (''error'', Obj [(''code'', Num 500), (''details'', Str ''Unable to update event'')]),
             (''timestamp'', Num timeNow)]\<rparr>, [Doc Undefined], s)
    \<and> deleteEvent env timeNow req s =
        (\<lparr>status = 500, json = Obj
            [(''status'', Str ''failure''),
             (''message'', Str ''Error deleting event''),
             (''error'', Obj [(''code'', Num 500), (''details'', Str ''Unable to delete event'')]),
             (''timestamp'', Num timeNow)]\<rparr>, [Doc Undefined], s)"
  using assms by (simp add: getEventById_def updateEvent_def deleteEvent_def Let_def)

theorem missing_id_rejected_witness:
  "status (fst (getEventById (firestore sample_dates) 1700000000500
      \<lparr>method = ''GET'', query = [], body = meetup\<rparr> meetup_store)) = 500
   \<and> snd (getEventById (firestore sample_dates) 1700000000500
      \<lparr>method = ''GET'', query = [], body = meetup\<rparr> meetup_store) = ([Doc Undefined], meetup_store)
   \<and> status (fst (updateEvent (firestore sample_dates) 1700000000500
      \<lparr>method = ''GET'', query = [], body = meetup\<rparr> meetup_store)) = 500
   \<and> snd (updateEvent (firestore sample_dates) 1700000000500
      \<lparr>method = ''GET'', query = [], body = meetup\<rparr> meetup_store) = ([Doc Undefined], meetup_store)
   \<and> status (fst (deleteEvent (firestore sample_dates) 1700000000500
      \<lparr>method = ''GET'', query = [], body = meetup\<rparr> meetup_store)) = 500
   \<and> snd (deleteEvent (firestore sample_dates) 1700000000500
      \<lparr>method = ''GET'', query = [], body = meetup\<rparr> meetup_store) = ([Doc Undefined], meetup_store)"
  using missing_id_rejected [of "\<lparr>method = ''GET'', query = [], body = meetup\<rparr>"
      "firestore sample_dates" "Error ''not a valid resource path''" 1700000000500 meetup_store]
  by (simp add: firestore_def get_prop_def store_doc_def)

text \<open>
  C10 as it was stated fails for \<open>getEventById\<close>: a POST request without an id is answered
  with status 405, and the store is not called at all.
\<close>

theorem getEventById_no_id_405:
  "get_prop (query \<lparr>method = ''POST'', query = [], body = []\<rparr>) ''id'' = Undefined
   \<and> status (fst (getEventById (firestore sample_dates) 1700000000500
        \<lparr>method = ''POST'', query = [], body = []\<rparr> meetup_store)) = 405
   \<and> snd (getEventById (firestore sample_dates) 1700000000500
        \<lparr>method = ''POST'', query = [], body = []\<rparr> meetup_store) = ([], meetup_store)"
  by (simp add: getEventById_def get_prop_def)

section \<open>The failure envelope\<close>

lemma createEvent_failure_shape:
  "status (fst (createEvent env timeNow req s)) \<in> {400, 405, 500} \<longrightarrow>
   failure_envelope timeNow (json (fst (createEvent env timeNow req s)))"
  by (simp add: createEvent_def Let_def failure_envelope_def get_prop_def
      split: sum.split prod.split)

lemma getAllEvents_failure_shape:
  "status (fst (getAllEvents env timeNow req s)) \<in> {400, 405, 500} \<longrightarrow>
   failure_envelope timeNow (json (fst (getAllEvents env timeNow req s)))"
  by (simp add: getAllEvents_def Let_def failure_envelope_def get_prop_def split: sum.split)

lemma getEventById_failure_shape:
  "status (fst (getEventById env timeNow req s)) \<in> {400, 405, 500} \<longrightarrow>
   failure_envelope timeNow (json (fst (getEventById env timeNow req s)))"
  by (simp add: getEventById_def Let_def failure_envelope_def get_prop_def split: sum.split)

lemma updateEvent_failure_shape:
  "status (fst (updateEvent env timeNow req s)) \<in> {400, 405, 500} \<longrightarrow>
   failure_envelope timeNow (json (fst (updateEvent env timeNow req s)))"
  by (simp add: updateEvent_def Let_def failure_envelope_def get_prop_def
      split: sum.split prod.split)

lemma deleteEvent_failure_shape:
  "status (fst (deleteEvent env timeNow req s)) \<in> {400, 405, 500} \<longrightarrow>
   failure_envelope timeNow (json (fst (deleteEvent env timeNow req s)))"
  by (simp add: deleteEvent_def Let_def failure_envelope_def get_prop_def
      split: sum.split prod.split)

lemma filterEvents_failure_shape:
  "status (fst (filterEvents env timeNow req s)) \<in> {400, 405, 500} \<longrightarrow>
   failure_envelope timeNow (json (fst (filterEvents env timeNow req s)))"
  by (simp add: filterEvents_def Let_def failure_envelope_def get_prop_def split: sum.split)

text \<open>
  C9: a response of any of the six handlers whose status is 400, 405 or 500 is the failure
  envelope \<^verbatim>\<open>{status: "failure", message, error: {code, details}, timestamp}\<close>, and its
  timestamp is the reading of the clock taken at the start of the request.
\<close>

theorem failure_responses_enveloped:
  "(status (fst (createEvent env timeNow req s)) \<in> {400, 405, 500} \<longrightarrow>
      failure_envelope timeNow (json (fst (createEvent env timeNow req s))))
   \<and> (status (fst (getAllEvents env timeNow req s)) \<in> {400, 405, 500} \<longrightarrow>
      failure_envelope timeNow (json (fst (getAllEvents env timeNow req s))))
   \<and> (status (fst (getEventById env timeNow req s)) \<in> {400, 405, 500} \<longrightarrow>
      failure_envelope timeNow (json (fst (getEventById env timeNow req s))))
   \<and> (status (fst (updateEvent env timeNow req s)) \<in> {400, 405, 500} \<longrightarrow>
      failure_envelope timeNow (json (fst (updateEvent env timeNow req s))))
   \<and> (status (fst (deleteEvent env timeNow req s)) \<in> {400, 405, 500} \<longrightarrow>
      failure_envelope timeNow (json (fst (deleteEvent env timeNow req s))))
   \<and> (status (fst (filterEvents env timeNow req s)) \<in> {400, 405, 500} \<longrightarrow>
      failure_envelope timeNow (json (fst (filterEvents env timeNow req s))))"
  by (intro conjI createEvent_failure_shape getAllEvents_failure_shape getEventById_failure_shape
      updateEvent_failure_shape deleteEvent_failure_shape filterEvents_failure_shape)

lemma put_without_parameters:
  "status (fst (createEvent (firestore sample_dates) 1700000000500
      \<lparr>method = ''PUT'', query = [], body = []\<rparr> meetup_store)) = 405"
  "status (fst (getAllEvents (firestore sample_dates) 1700000000500
      \<lparr>method = ''PUT'', query = [], body = []\<rparr> meetup_store)) = 405"
  "status (fst (getEventById (firestore sample_dates) 1700000000500
      \<lparr>method = ''PUT'', query = [], body = []\<rparr> meetup_store)) = 405"
  "status (fst (updateEvent (firestore sample_dates) 1700000000500
      \<lparr>method = ''PUT'', query = [], body = []\<rparr> meetup_store)) = 500"
  "status (fst (deleteEvent (firestore sample_dates) 1700000000500
      \<lparr>method = ''PUT'', query = [], body = []\<rparr> meetup_store)) = 500"
  "status (fst (filterEvents (firestore sample_dates) 1700000000500
      \<lparr>method = ''PUT'', query = [], body = []\<rparr> meetup_store)) = 400"
  by (simp_all add: createEvent_def getAllEvents_def getEventById_def updateEvent_def
      deleteEvent_def filterEvents_def firestore_def store_get_all_def store_doc_def get_prop_def)

theorem failure_responses_enveloped_witness:
  "failure_envelope 1700000000500 (json (fst (createEvent (firestore sample_dates) 1700000000500
      \<lparr>method = ''PUT'', query = [], body = []\<rparr> meetup_store)))
   \<and> failure_envelope 1700000000500 (json (fst (getAllEvents (firestore sample_dates) 1700000000500
      \<lparr>method = ''PUT'', query = [], body = []\<rparr> meetup_store)))
   \<and> failure_envelope 1700000000500 (json (fst (getEventById (firestore sample_dates) 1700000000500
      \<lparr>method = ''PUT'', query = [], body = []\<rparr> meetup_store)))
   \<and> failure_envelope 1700000000500 (json (fst (updateEvent (firestore sample_dates) 1700000000500
      \<lparr>method = ''PUT'', query = [], body = []\<rparr> meetup_store)))
   \<and> failure_envelope 1700000000500 (json (fst (deleteEvent (firestore sample_dates) 1700000000500
      \<lparr>method = ''PUT'', query = [], body = []\<rparr> meetup_store)))
   \<and> failure_envelope 1700000000500 (json (fst (filterEvents (firestore sample_dates) 1700000000500
      \<lparr>method = ''PUT'', query = [], body = []\<rparr> meetup_store)))"
  using failure_responses_enveloped [of "firestore sample_dates" 1700000000500
      "\<lparr>method = ''PUT'', query = [], body = []\<rparr>" meetup_store]
  by (simp add: put_without_parameters)

section \<open>Properties of the filter handler\<close>

text \<open>
  The handler converts the \<^verbatim>\<open>date\<close> parameter before it looks whether one was given. For a
  request with an event type and no date, the conversion is that of an invalid date. Where
  it returns, the query carries the event type alone and its matches are sent with status
  200.
\<close>

lemma filterEvents_without_date_returns:
  assumes "truthy (get_prop (query req) ''eventType'')"
    and "get_prop (query req) ''date'' = Undefined"
    and "fromDate env None = Inr ts"
    and "query_get env [(''eventType'', get_prop (query req) ''eventType'')] s = Inr snapshot"
  shows "filterEvents env timeNow req s =
      (\<lparr>status = 200, json = Arr (map with_id snapshot)\<rparr>,
       [WhereGet [(''eventType'', get_prop (query req) ''eventType'')]], s)"
  using assms by (simp add: filterEvents_def Let_def new_Date_def)

text \<open>
  C1, where the code departs from it: when \<^verbatim>\<open>Timestamp.fromDate\<close> throws for an invalid date,
  as the Admin SDK's does, every \<open>filterEvents\<close> request that gives an event type and no date
  is answered with status 500 and the failure envelope, and no query reaches the store. So
  the filter by \<^verbatim>\<open>eventType=social\<close> that follows the creation of a social event is answered
  with status 500, not with an array holding the event's id.
\<close>

theorem filterEvents_eventType_only:
  assumes "truthy (get_prop (query req) ''eventType'')"
    and "get_prop (query req) ''date'' = Undefined"
    and "fromDate env None = Inl e"
  shows "filterEvents env timeNow req s =
      (\<lparr>status = 500, json = Obj
          [(''status'', Str ''failure''),
           (''message'', Str ''Error filtering event''),
           (''error'', Obj [(''code'', Num 500), (''details'', Str ''Unable to filter event'')]),
           (''timestamp'', Num timeNow)]\<rparr>, [], s)"
  using assms by (simp add: filterEvents_def Let_def new_Date_def)

theorem filterEvents_eventType_only_witness:
  "snd (snd (createEvent (firestore sample_dates) 1700000000500
      \<lparr>method = ''POST'', query = [], body = meetup\<rparr> empty_store)) = meetup_store
   \<and> filterEvents (firestore sample_dates) 1700000000900
      \<lparr>method = ''GET'', query = [(''eventType'', Str ''social'')], body = []\<rparr> meetup_store =
      (\<lparr>status = 500, json = Obj
          [(''status'', Str ''failure''),
           (''message'', Str ''Error filtering event''),
           (''error'', Obj [(''code'', Num 500), (''details'', Str ''Unable to filter event'')]),
           (''timestamp'', Num 1700000000900)]\<rparr>, [], meetup_store)"
  using filterEvents_eventType_only [of
      "\<lparr>method = ''GET'', query = [(''eventType'', Str ''social'')], body = []\<rparr>"
      "firestore sample_dates" "Error ''Value for argument seconds is not a valid integer.''"
      1700000000900 meetup_store]
    create_meetup
  by (simp add: get_prop_def firestore_def Timestamp_fromDate_def)

text \<open>
  Were the conversion of an invalid date to return, as the specification reads it, the same
  request would be answered with status 200 and the created event.
\<close>

lemma filterEvents_when_conversion_returns:
  "filterEvents ((firestore sample_dates)\<lparr>fromDate := \<lambda>ms. Inr (case ms of None \<Rightarrow> Null | Some t \<Rightarrow> Tstamp t)\<rparr>)
      1700000000900
      \<lparr>method = ''GET'', query = [(''eventType'', Str ''social'')], body = []\<rparr> meetup_store =
    (\<lparr>status = 200, json = Arr
        [Obj [(''id'', Str ''event0''),
              (''title'', Str ''Meetup''),
              (''description'', Str ''d''),
              (''date'', Tstamp 1714521600000),
              (''location'', Str ''Hall A''),
              (''organizer'', Str ''Org''),
              (''eventType'', Str ''social''),
              (''updatedAt'', Tstamp 1700000000000)]]\<rparr>,
     [WhereGet [(''eventType'', Str ''social'')]], meetup_store)"
  by (simp add: filterEvents_def Let_def new_Date_def firestore_def store_query_def get_prop_def
      meetup_store_def with_id_def spread_def)

end
